theory Spec2Isabelle
  imports Main "HOL-Library.Sublist"
begin

section \<open>Values, errors and the module namespaces\<close>

text \<open>
  The two scripts, \<^verbatim>\<open>streamlit_refer.py\<close> and \<^verbatim>\<open>test.py\<close>, are near duplicates. Every
  definition below carries the prefix \<open>refer_\<close> or \<open>test_\<close> of the script it is taken
  from. Python strings are kept as their UTF-8 bytes.
\<close>

datatype pyerror =
    NameError string
  | TypeError string
  | AttributeError string
  | KeyError string
  | IndexError string
  | ValueError string
  | LibraryError string

text \<open>
  A global name is resolved when the line that mentions it runs: a name that the module
  neither imports nor defines (and that is no builtin) raises \<open>NameError\<close> there.
\<close>

definition refer_globals :: "string list" where
  "refer_globals =
     [''st'', ''io'', ''pd'', ''tiktoken'', ''logger'',
      ''ConversationalRetrievalChain'', ''ChatOpenAI'',
      ''PyPDFLoader'', ''Docx2txtLoader'', ''UnstructuredPowerPointLoader'', ''CSVLoader'',
      ''RecursiveCharacterTextSplitter'', ''HuggingFaceEmbeddings'',
      ''ConversationBufferMemory'', ''FAISS'', ''Document'',
      ''StreamlitChatMessageHistory'',
      ''main'', ''tiktoken_len'', ''get_text_from_csv'', ''get_text'', ''get_text_chunks'',
      ''get_vectorstore'', ''get_conversation_chain'']"

definition test_globals :: "string list" where
  "test_globals =
     [''st'', ''io'', ''pd'', ''logger'',
      ''ConversationalRetrievalChain'', ''ChatOpenAI'',
      ''PyPDFLoader'', ''Docx2txtLoader'', ''UnstructuredPowerPointLoader'',
      ''RecursiveCharacterTextSplitter'', ''HuggingFaceEmbeddings'',
      ''ConversationBufferMemory'', ''FAISS'',
      ''get_openai_callback'', ''StreamlitChatMessageHistory'',
      ''main'', ''get_text_from_csv'', ''get_text'', ''get_text_chunks'',
      ''get_vectorstore'', ''get_conversation_chain'', ''tiktoken_len'']"

definition name_error :: "string \<Rightarrow> pyerror" where
  "name_error n = NameError (''name '' @ [CHR 0x27] @ n @ [CHR 0x27] @ '' is not defined'')"

text \<open>Calling \<open>None\<close> raises \<open>TypeError\<close> with this message.\<close>

definition none_not_callable :: pyerror where
  "none_not_callable = TypeError ([CHR 0x27] @ ''NoneType'' @ [CHR 0x27] @ '' object is not callable'')"

definition lookup_global :: "string list \<Rightarrow> string \<Rightarrow> pyerror + unit" where
  "lookup_global module_names n =
     (if n \<in> set module_names then Inr () else Inl (name_error n))"

section \<open>Documents, uploads and tables\<close>

record document =
  page_content :: string
  metadata :: "(string \<times> string) list"

text \<open>
  \<^verbatim>\<open>test.py\<close> appends the bare CSV text to \<open>doc_list\<close>, so its list holds both
  \<open>Document\<close> objects and plain strings.
\<close>

datatype pyobj = Document document | Str string

text \<open>An uploaded file: \<open>getbuffer\<close> and \<open>getvalue\<close> give the same bytes.\<close>

record uploaded_file =
  name :: string
  type :: string
  getvalue :: string

record dataframe =
  columns :: "string list"
  rows :: "string list list"

section \<open>The libraries the scripts call\<close>

text \<open>
  The text splitter is handed a length function and calls it as it sees fit. Its run on
  one input is a tree: it returns, raises, or measures a text and goes on with the
  number it gets back.
\<close>

datatype 'a splitter_run =
    Return 'a
  | Raise pyerror
  | Measure string "nat \<Rightarrow> 'a splitter_run"

primrec run_splitter :: "(string \<Rightarrow> pyerror + nat) \<Rightarrow> 'a splitter_run \<Rightarrow> pyerror + 'a" where
  "run_splitter length_function (Return x) = Inr x"
| "run_splitter length_function (Raise e) = Inl e"
| "run_splitter length_function (Measure s k) =
     (case length_function s of
        Inl e \<Rightarrow> Inl e
      | Inr n \<Rightarrow> run_splitter length_function (k n))"

record embeddings_config =
  embeddings_model_name :: string
  device :: string
  normalize_embeddings :: bool

record chain_config =
  api_key :: string
  model_name :: string
  temperature :: int
  chain_type :: string
  search_type :: string
  memory_key :: string
  output_key :: string
  return_source_documents :: bool

record chain_result =
  answer :: string
  source_documents :: "document list"
  result_chat_history :: "(string \<times> string) list"

text \<open>
  None of the libraries is part of the repository; each is a parameter. \<open>'v\<close> is the
  vector store, \<open>'c\<close> the conversation chain with its memory; calling the chain returns
  the result and the chain as the call left it.
\<close>

record ('v, 'c) libraries =
  PyPDFLoader :: "string \<Rightarrow> pyerror + document list"
  Docx2txtLoader :: "string \<Rightarrow> pyerror + document list"
  UnstructuredPowerPointLoader :: "string \<Rightarrow> pyerror + document list"
  decode :: "string \<Rightarrow> pyerror + string"
  read_csv :: "string \<Rightarrow> pyerror + dataframe"
  encode :: "string \<Rightarrow> string \<Rightarrow> pyerror + nat list"
  split_documents :: "nat \<Rightarrow> nat \<Rightarrow> pyobj list \<Rightarrow> document list splitter_run"
  from_documents :: "embeddings_config \<Rightarrow> document list \<Rightarrow> pyerror + 'v"
  from_llm :: "chain_config \<Rightarrow> 'v \<Rightarrow> pyerror + 'c"
  call_chain :: "'c \<Rightarrow> string \<Rightarrow> pyerror + (chain_result \<times> 'c)"

section \<open>CSV to text\<close>

text \<open>
  Modelled from the spec: pandas' \<open>DataFrame.to_string(index=False)\<close> and
  \<open>DataFrame.astype(str).sum()\<close> are not in the repository. The spec says of them that
  "one variant serializes the full table to text, the other concatenates column-wise
  sums of string casts". Cells are kept as the text they have in the file. The full
  table is the header line and one line per row, each column right-justified to its
  widest entry and the columns separated by one blank; the column-wise sum of a column
  is the concatenation of its cells from top to bottom.
\<close>

definition join :: "string \<Rightarrow> string list \<Rightarrow> string" where
  "join sep xs = (case xs of [] \<Rightarrow> [] | y # ys \<Rightarrow> y @ concat (map (\<lambda>z. sep @ z) ys))"

definition column :: "dataframe \<Rightarrow> nat \<Rightarrow> string list" where
  "column df j = map (\<lambda>r. if j < length r then r ! j else []) (rows df)"

definition rjust :: "nat \<Rightarrow> string \<Rightarrow> string" where
  "rjust w s = replicate (w - length s) (CHR '' '') @ s"

definition to_string :: "dataframe \<Rightarrow> string" where
  "to_string df =
     (let width = (\<lambda>j. Max (set (map length ((columns df ! j) # column df j))));
          line = (\<lambda>cells. join '' '' (map (\<lambda>j. rjust (width j) (if j < length cells then cells ! j else []))
                                          [0 ..< length (columns df)]))
      in join [CHR 0x0A] (map line (columns df # rows df)))"

definition astype_str_sum :: "dataframe \<Rightarrow> string list" where
  "astype_str_sum df = map (\<lambda>j. concat (column df j)) [0 ..< length (columns df)]"

definition refer_get_text_from_csv :: "('v, 'c) libraries \<Rightarrow> string \<Rightarrow> pyerror + string" where
  "refer_get_text_from_csv L file_buffer =
     (case read_csv L file_buffer of
        Inl e \<Rightarrow> Inl e
      | Inr df \<Rightarrow> Inr (to_string df))"

definition test_get_text_from_csv :: "('v, 'c) libraries \<Rightarrow> string \<Rightarrow> pyerror + string" where
  "test_get_text_from_csv L file_buffer =
     (case read_csv L file_buffer of
        Inl e \<Rightarrow> Inl e
      | Inr df \<Rightarrow> Inr (join '' '' (astype_str_sum df)))"

section \<open>Loading: \<open>get_text\<close>\<close>

definition pdf_type :: string where
  "pdf_type = ''application/pdf''"

definition docx_type :: string where
  "docx_type = ''application/vnd.openxmlformats-officedocument.wordprocessingml.document''"

definition pptx_type :: string where
  "pptx_type = ''application/vnd.openxmlformats-officedocument.presentationml.presentation''"

definition csv_type :: string where
  "csv_type = ''text/csv''"

fun refer_get_text_loop ::
  "('v, 'c) libraries \<Rightarrow> document list \<Rightarrow> uploaded_file list \<Rightarrow> pyerror + document list" where
  "refer_get_text_loop L doc_list [] = Inr doc_list"
| "refer_get_text_loop L doc_list (doc # docs) =
     (if type doc = pdf_type then
        (case PyPDFLoader L (getvalue doc) of
           Inl e \<Rightarrow> Inl e
         | Inr documents \<Rightarrow> refer_get_text_loop L (doc_list @ documents) docs)
      else if type doc = docx_type then
        (case Docx2txtLoader L (getvalue doc) of
           Inl e \<Rightarrow> Inl e
         | Inr documents \<Rightarrow> refer_get_text_loop L (doc_list @ documents) docs)
      else if type doc = pptx_type then
        (case UnstructuredPowerPointLoader L (getvalue doc) of
           Inl e \<Rightarrow> Inl e
         | Inr documents \<Rightarrow> refer_get_text_loop L (doc_list @ documents) docs)
      else if type doc = csv_type then
        (case decode L (getvalue doc) of
           Inl e \<Rightarrow> Inl e
         | Inr text \<Rightarrow>
             (case refer_get_text_from_csv L text of
                Inl e \<Rightarrow> Inl e
              | Inr csv_text \<Rightarrow>
                  refer_get_text_loop L
                    (doc_list @ [\<lparr>page_content = csv_text, metadata = [(''source'', name doc)]\<rparr>])
                    docs))
      else refer_get_text_loop L doc_list docs)"

definition refer_get_text :: "('v, 'c) libraries \<Rightarrow> uploaded_file list \<Rightarrow> pyerror + document list" where
  "refer_get_text L docs = refer_get_text_loop L [] docs"

fun test_get_text_loop ::
  "('v, 'c) libraries \<Rightarrow> pyobj list \<Rightarrow> uploaded_file list \<Rightarrow> pyerror + pyobj list" where
  "test_get_text_loop L doc_list [] = Inr doc_list"
| "test_get_text_loop L doc_list (doc # docs) =
     (if type doc = pdf_type then
        (case PyPDFLoader L (getvalue doc) of
           Inl e \<Rightarrow> Inl e
         | Inr documents \<Rightarrow> test_get_text_loop L (doc_list @ map Document documents) docs)
      else if type doc = docx_type then
        (case Docx2txtLoader L (getvalue doc) of
           Inl e \<Rightarrow> Inl e
         | Inr documents \<Rightarrow> test_get_text_loop L (doc_list @ map Document documents) docs)
      else if type doc = pptx_type then
        (case UnstructuredPowerPointLoader L (getvalue doc) of
           Inl e \<Rightarrow> Inl e
         | Inr documents \<Rightarrow> test_get_text_loop L (doc_list @ map Document documents) docs)
      else if type doc = csv_type then
        (case test_get_text_from_csv L (getvalue doc) of
           Inl e \<Rightarrow> Inl e
         | Inr text_data \<Rightarrow> test_get_text_loop L (doc_list @ [Str text_data]) docs)
      else test_get_text_loop L doc_list docs)"

definition test_get_text :: "('v, 'c) libraries \<Rightarrow> uploaded_file list \<Rightarrow> pyerror + pyobj list" where
  "test_get_text L docs = test_get_text_loop L [] docs"

definition supported_types :: "string list" where
  "supported_types = [pdf_type, docx_type, pptx_type, csv_type]"

section \<open>Chunking, embedding and the conversation chain\<close>

definition refer_tiktoken_len :: "('v, 'c) libraries \<Rightarrow> string \<Rightarrow> pyerror + nat" where
  "refer_tiktoken_len L text =
     (case lookup_global refer_globals ''tiktoken'' of
        Inl e \<Rightarrow> Inl e
      | Inr u \<Rightarrow>
          (case encode L ''cl100k_base'' text of
             Inl e \<Rightarrow> Inl e
           | Inr tokens \<Rightarrow> Inr (length tokens)))"

definition test_tiktoken_len :: "('v, 'c) libraries \<Rightarrow> string \<Rightarrow> pyerror + nat" where
  "test_tiktoken_len L text =
     (case lookup_global test_globals ''tiktoken'' of
        Inl e \<Rightarrow> Inl e
      | Inr u \<Rightarrow>
          (case encode L ''cl100k_base'' text of
             Inl e \<Rightarrow> Inl e
           | Inr tokens \<Rightarrow> Inr (length tokens)))"

definition refer_get_text_chunks :: "('v, 'c) libraries \<Rightarrow> document list \<Rightarrow> pyerror + document list" where
  "refer_get_text_chunks L text =
     run_splitter (refer_tiktoken_len L) (split_documents L 900 100 (map Document text))"

definition test_get_text_chunks :: "('v, 'c) libraries \<Rightarrow> pyobj list \<Rightarrow> pyerror + document list" where
  "test_get_text_chunks L text =
     run_splitter (test_tiktoken_len L) (split_documents L 900 100 text)"

definition refer_get_vectorstore :: "('v, 'c) libraries \<Rightarrow> document list \<Rightarrow> pyerror + 'v" where
  "refer_get_vectorstore L text_chunks =
     from_documents L
       \<lparr>embeddings_model_name = ''jhgan/ko-sroberta-multitask'', device = ''cpu'',
        normalize_embeddings = True\<rparr>
       text_chunks"

definition test_get_vectorstore :: "('v, 'c) libraries \<Rightarrow> document list \<Rightarrow> pyerror + 'v" where
  "test_get_vectorstore L text_chunks =
     from_documents L
       \<lparr>embeddings_model_name = ''jhgan/ko-sroberta-multitask'', device = ''cpu'',
        normalize_embeddings = True\<rparr>
       text_chunks"

definition refer_get_conversation_chain :: "('v, 'c) libraries \<Rightarrow> 'v \<Rightarrow> string \<Rightarrow> pyerror + 'c" where
  "refer_get_conversation_chain L vetorestore key =
     from_llm L
       \<lparr>api_key = key, model_name = ''gpt-3.5-turbo'', temperature = 0,
        chain_type = ''stuff'', search_type = ''mmr'', memory_key = ''chat_history'',
        output_key = ''answer'', return_source_documents = True\<rparr>
       vetorestore"

definition test_get_conversation_chain :: "('v, 'c) libraries \<Rightarrow> 'v \<Rightarrow> string \<Rightarrow> pyerror + 'c" where
  "test_get_conversation_chain L vectorestore key =
     from_llm L
       \<lparr>api_key = key, model_name = ''gpt-3.5-turbo'', temperature = 0,
        chain_type = ''retrieval'', search_type = ''mmr'', memory_key = ''chat_history'',
        output_key = ''answer'', return_source_documents = True\<rparr>
       vectorestore"

section \<open>Session state, widgets and what a run shows\<close>

record message =
  role :: string
  content :: string

text \<open>
  \<open>st.session_state\<close> outlives a run of the script. A field is \<open>None\<close> while its key is
  absent; \<open>conversation = Some None\<close> is the key bound to Python's \<open>None\<close>.
\<close>

record 'c session_state =
  conversation :: "'c option option"
  chat_history :: "(string \<times> string) list option"
  processComplete :: "bool option"
  messages :: "message list option"
  chat_messages :: "message list option"

text \<open>What the widgets return in one run.\<close>

record 'q widgets =
  uploaded_files :: "uploaded_file list"
  openai_api_key :: string
  process :: bool
  query :: 'q

datatype event =
    st_set_page_config string string
  | st_title string
  | st_warning string
  | st_markdown string
  | st_markdown_help string string
  | st_write string
  | st_chat_message string
  | st_spinner string
  | st_expander string

text \<open>\<open>st.stop()\<close> ends the run without an error; an uncaught exception ends it with one.\<close>

datatype outcome = Finished | Stopped | Raised pyerror

record 'c run =
  state :: "'c session_state"
  shown :: "event list"
  outcome :: outcome

definition expander_label :: string where
  "expander_label =
     [CHR 0xEC, CHR 0xB0, CHR 0xB8, CHR 0xEA, CHR 0xB3, CHR 0xA0] @ '' '' @
     [CHR 0xEB, CHR 0xAC, CHR 0xB8, CHR 0xEC, CHR 0x84, CHR 0x9C] @ '' '' @
     [CHR 0xED, CHR 0x99, CHR 0x95, CHR 0xEC, CHR 0x9D, CHR 0xB8]"

definition key_warning :: string where
  "key_warning = ''Please add your OpenAI API key to continue.''"

definition upload_warning :: string where
  "upload_warning = ''Please upload at least one document.''"

section \<open>\<open>main\<close> of streamlit\_refer.py\<close>

definition refer_title :: string where
  "refer_title =
     ''_SPAM MESSAGE '' @
     [CHR 0xEB, CHR 0xB6, CHR 0x84, CHR 0xEB, CHR 0xA5, CHR 0x98, CHR 0xEA, CHR 0xB8, CHR 0xB0] @
     '' :red[TEST]_ :books:''"

definition refer_greeting :: message where
  "refer_greeting =
     \<lparr>role = ''assistant'',
      content =
        [CHR 0xEB, CHR 0xAC, CHR 0xB4, CHR 0xEC, CHR 0x97, CHR 0x87, CHR 0xEC, CHR 0x9D, CHR 0x84] @ '' '' @
        [CHR 0xEB, CHR 0x8F, CHR 0x84, CHR 0xEC, CHR 0x99, CHR 0x80, CHR 0xEB, CHR 0x93, CHR 0x9C,
         CHR 0xEB, CHR 0xA6, CHR 0xB4, CHR 0xEA, CHR 0xB9, CHR 0x8C, CHR 0xEC, CHR 0x9A, CHR 0x94]\<rparr>"

text \<open>Lines 27 to 34: the three keys get their defaults when they are absent.\<close>

definition refer_init :: "'c session_state \<Rightarrow> 'c session_state" where
  "refer_init s =
     s\<lparr>conversation := (case conversation s of None \<Rightarrow> Some None | Some c \<Rightarrow> Some c),
       chat_history := (case chat_history s of None \<Rightarrow> Some [] | Some h \<Rightarrow> Some h),
       processComplete := (case processComplete s of None \<Rightarrow> Some False | Some b \<Rightarrow> Some b)\<rparr>"

text \<open>Lines 47 to 51: load, chunk, embed and index, then build the chain.\<close>

definition refer_build ::
  "('v, 'c) libraries \<Rightarrow> uploaded_file list \<Rightarrow> string \<Rightarrow> pyerror + 'c" where
  "refer_build L files key =
     (case refer_get_text L files of
        Inl e \<Rightarrow> Inl e
      | Inr files_text \<Rightarrow>
          (case refer_get_text_chunks L files_text of
             Inl e \<Rightarrow> Inl e
           | Inr text_chunks \<Rightarrow>
               (case refer_get_vectorstore L text_chunks of
                  Inl e \<Rightarrow> Inl e
                | Inr vectorestore \<Rightarrow> refer_get_conversation_chain L vectorestore key)))"

text \<open>Lines 84 and 85: one line per source document, in the order of the result.\<close>

fun refer_show_sources :: "document list \<Rightarrow> event list \<times> outcome" where
  "refer_show_sources [] = ([], Finished)"
| "refer_show_sources (doc # docs) =
     (case map_of (metadata doc) ''source'' of
        None \<Rightarrow> ([], Raised (KeyError ''source''))
      | Some source \<Rightarrow>
          (case refer_show_sources docs of
             (evs, out) \<Rightarrow> (st_markdown_help source (page_content doc) # evs, out)))"

text \<open>
  Lines 55 to 88. Were \<open>get_openai_callback\<close> bound, its context manager would wrap
  line 78 only; the lines after it are kept as the source has them.
\<close>

definition refer_chat ::
  "('v, 'c) libraries \<Rightarrow> string option widgets \<Rightarrow> 'c session_state \<Rightarrow> event list \<Rightarrow> 'c run" where
  "refer_chat L w s ev =
     (let ms = (case messages s of None \<Rightarrow> [refer_greeting] | Some m \<Rightarrow> m);
          ev1 = ev @ concat (map (\<lambda>m. [st_chat_message (role m), st_markdown (content m)]) ms);
          s1 = s\<lparr>messages := Some ms,
                 chat_messages := (case chat_messages s of None \<Rightarrow> Some [] | Some h \<Rightarrow> Some h)\<rparr>
      in case query w of
           None \<Rightarrow> \<lparr>state = s1, shown = ev1, outcome = Finished\<rparr>
         | Some q \<Rightarrow>
             if q = [] then \<lparr>state = s1, shown = ev1, outcome = Finished\<rparr>
             else
               (let s2 = s1\<lparr>messages := Some (ms @ [\<lparr>role = ''user'', content = q\<rparr>])\<rparr>;
                    ev2 = ev1 @ [st_chat_message ''user'', st_markdown q,
                                 st_chat_message ''assistant'', st_spinner ''Thinking...'']
                in case conversation s2 of
                     None \<Rightarrow>
                       \<lparr>state = s2, shown = ev2,
                        outcome = Raised (AttributeError ''conversation'')\<rparr>
                   | Some None \<Rightarrow>
                       \<lparr>state = s2, shown = ev2,
                        outcome = Raised none_not_callable\<rparr>
                   | Some (Some chain) \<Rightarrow>
                       (case call_chain L chain q of
                          Inl e \<Rightarrow> \<lparr>state = s2, shown = ev2, outcome = Raised e\<rparr>
                        | Inr (result, chain') \<Rightarrow>
                            (let s3 = s2\<lparr>conversation := Some (Some chain')\<rparr>
                             in case lookup_global refer_globals ''get_openai_callback'' of
                                  Inl e \<Rightarrow> \<lparr>state = s3, shown = ev2, outcome = Raised e\<rparr>
                                | Inr u \<Rightarrow>
                                    (let s4 = s3\<lparr>chat_history := Some (result_chat_history result)\<rparr>;
                                         response = answer result;
                                         ev3 = ev2 @ [st_markdown response, st_expander expander_label]
                                     in case refer_show_sources (source_documents result) of
                                          (evs, Finished) \<Rightarrow>
                                            \<lparr>state = s4\<lparr>messages :=
                                                 Some (ms @ [\<lparr>role = ''user'', content = q\<rparr>,
                                                             \<lparr>role = ''assistant'', content = response\<rparr>])\<rparr>,
                                             shown = ev3 @ evs, outcome = Finished\<rparr>
                                        | (evs, out) \<Rightarrow>
                                            \<lparr>state = s4, shown = ev3 @ evs, outcome = out\<rparr>)))))"

definition refer_main ::
  "('v, 'c) libraries \<Rightarrow> string option widgets \<Rightarrow> 'c session_state \<Rightarrow> 'c run" where
  "refer_main L w s0 =
     (let ev = [st_set_page_config ''DirChat'' '':books:'', st_title refer_title];
          s = refer_init s0
      in if process w then
           if openai_api_key w = [] then
             \<lparr>state = s, shown = ev @ [st_warning key_warning], outcome = Stopped\<rparr>
           else if uploaded_files w = [] then
             \<lparr>state = s, shown = ev @ [st_warning upload_warning], outcome = Stopped\<rparr>
           else
             (case refer_build L (uploaded_files w) (openai_api_key w) of
                Inl e \<Rightarrow> \<lparr>state = s, shown = ev, outcome = Raised e\<rparr>
              | Inr chain \<Rightarrow>
                  refer_chat L w
                    (s\<lparr>conversation := Some (Some chain), processComplete := Some True\<rparr>) ev)
         else refer_chat L w s ev)"

section \<open>\<open>main\<close> of test.py\<close>

definition test_title :: string where
  "test_title = ''_Private Data :red[QA Chat]_ :books:''"

definition test_greeting :: message where
  "test_greeting =
     \<lparr>role = ''system'',
      content =
        [CHR 0xEC, CHR 0x95, CHR 0x88, CHR 0xEB, CHR 0x85, CHR 0x95, CHR 0xED, CHR 0x95, CHR 0x98,
         CHR 0xEC, CHR 0x84, CHR 0xB8, CHR 0xEC, CHR 0x9A, CHR 0x94] @ ''! '' @
        [CHR 0xEC, CHR 0xA3, CHR 0xBC, CHR 0xEC, CHR 0x96, CHR 0xB4, CHR 0xEC, CHR 0xA7, CHR 0x84] @ '' '' @
        [CHR 0xEB, CHR 0xAC, CHR 0xB8, CHR 0xEC, CHR 0x84, CHR 0x9C, CHR 0xEC, CHR 0x97, CHR 0x90] @ '' '' @
        [CHR 0xEB, CHR 0x8C, CHR 0x80, CHR 0xED, CHR 0x95, CHR 0xB4] @ '' '' @
        [CHR 0xEA, CHR 0xB6, CHR 0x81, CHR 0xEA, CHR 0xB8, CHR 0x88, CHR 0xED, CHR 0x95, CHR 0x98,
         CHR 0xEC, CHR 0x8B, CHR 0xA0] @ '' '' @
        [CHR 0xEA, CHR 0xB2, CHR 0x83, CHR 0xEC, CHR 0x9D, CHR 0xB4] @ '' '' @
        [CHR 0xEC, CHR 0x9E, CHR 0x88, CHR 0xEC, CHR 0x9C, CHR 0xBC, CHR 0xEB, CHR 0xA9, CHR 0xB4] @ '' '' @
        [CHR 0xEC, CHR 0x96, CHR 0xB8, CHR 0xEC, CHR 0xA0, CHR 0x9C, CHR 0xEB, CHR 0x93, CHR 0xA0] @ '' '' @
        [CHR 0xEB, CHR 0xAC, CHR 0xBC, CHR 0xEC, CHR 0x96, CHR 0xB4, CHR 0xEB, CHR 0xB4, CHR 0x90,
         CHR 0xEC, CHR 0xA3, CHR 0xBC, CHR 0xEC, CHR 0x84, CHR 0xB8, CHR 0xEC, CHR 0x9A, CHR 0x94] @ ''!''\<rparr>"

text \<open>Lines 22 to 32: the four keys get their defaults when they are absent.\<close>

definition test_init :: "'c session_state \<Rightarrow> 'c session_state" where
  "test_init s =
     s\<lparr>messages := (case messages s of None \<Rightarrow> Some [test_greeting] | Some m \<Rightarrow> Some m),
       conversation := (case conversation s of None \<Rightarrow> Some None | Some c \<Rightarrow> Some c),
       chat_history := (case chat_history s of None \<Rightarrow> Some [] | Some h \<Rightarrow> Some h),
       processComplete := (case processComplete s of None \<Rightarrow> Some False | Some b \<Rightarrow> Some b)\<rparr>"

text \<open>Lines 47 to 51.\<close>

definition test_build ::
  "('v, 'c) libraries \<Rightarrow> uploaded_file list \<Rightarrow> string \<Rightarrow> pyerror + 'c" where
  "test_build L files key =
     (case test_get_text L files of
        Inl e \<Rightarrow> Inl e
      | Inr files_text \<Rightarrow>
          (case test_get_text_chunks L files_text of
             Inl e \<Rightarrow> Inl e
           | Inr text_chunks \<Rightarrow>
               (case test_get_vectorstore L text_chunks of
                  Inl e \<Rightarrow> Inl e
                | Inr vectorestore \<Rightarrow> test_get_conversation_chain L vectorestore key)))"

text \<open>Lines 71 to 73: two lines per source document, in the order of the result.\<close>

fun test_show_sources :: "document list \<Rightarrow> event list \<times> outcome" where
  "test_show_sources [] = ([], Finished)"
| "test_show_sources (doc # docs) =
     (case map_of (metadata doc) ''source'' of
        None \<Rightarrow> ([], Raised (KeyError ''source''))
      | Some source \<Rightarrow>
          (case test_show_sources docs of
             (evs, out) \<Rightarrow>
               (st_markdown (''- **Source**: '' @ source) #
                st_markdown (''```'' @ page_content doc @ ''```'') # evs, out)))"

text \<open>Lines 54 to 73. The question box exists only once \<open>processComplete\<close> is true.\<close>

definition test_chat ::
  "('v, 'c) libraries \<Rightarrow> string widgets \<Rightarrow> 'c session_state \<Rightarrow> event list \<Rightarrow> 'c run" where
  "test_chat L w s ev =
     (case messages s of
        None \<Rightarrow> \<lparr>state = s, shown = ev, outcome = Raised (AttributeError ''messages'')\<rparr>
      | Some ms \<Rightarrow>
          (let ev1 = ev @ map (\<lambda>m. st_write (role m @ '': '' @ content m)) ms
           in case processComplete s of
                None \<Rightarrow> \<lparr>state = s, shown = ev1, outcome = Raised (AttributeError ''processComplete'')\<rparr>
              | Some False \<Rightarrow> \<lparr>state = s, shown = ev1, outcome = Finished\<rparr>
              | Some True \<Rightarrow>
                  if query w = [] then \<lparr>state = s, shown = ev1, outcome = Finished\<rparr>
                  else
                    (let s1 = s\<lparr>messages := Some (ms @ [\<lparr>role = ''user'', content = query w\<rparr>])\<rparr>
                     in case conversation s1 of
                          None \<Rightarrow>
                            \<lparr>state = s1, shown = ev1, outcome = Raised (AttributeError ''conversation'')\<rparr>
                        | Some None \<Rightarrow> \<lparr>state = s1, shown = ev1, outcome = Finished\<rparr>
                        | Some (Some chain) \<Rightarrow>
                            (let ev2 = ev1 @ [st_spinner ''Thinking...'']
                             in case call_chain L chain (query w) of
                                  Inl e \<Rightarrow> \<lparr>state = s1, shown = ev2, outcome = Raised e\<rparr>
                                | Inr (result, chain') \<Rightarrow>
                                    (let response = answer result;
                                         s2 = s1\<lparr>conversation := Some (Some chain'),
                                                 messages :=
                                                   Some (ms @ [\<lparr>role = ''user'', content = query w\<rparr>,
                                                               \<lparr>role = ''assistant'', content = response\<rparr>])\<rparr>
                                     in case test_show_sources (source_documents result) of
                                          (evs, out) \<Rightarrow>
                                            \<lparr>state = s2,
                                             shown = ev2 @ [st_expander expander_label] @ evs,
                                             outcome = out\<rparr>)))))"

definition test_main ::
  "('v, 'c) libraries \<Rightarrow> string widgets \<Rightarrow> 'c session_state \<Rightarrow> 'c run" where
  "test_main L w s0 =
     (let ev = [st_set_page_config ''DirChat'' '':books:'', st_title test_title];
          s = test_init s0
      in if process w then
           if openai_api_key w = [] then
             \<lparr>state = s, shown = ev @ [st_warning key_warning], outcome = Stopped\<rparr>
           else if uploaded_files w = [] then
             \<lparr>state = s, shown = ev @ [st_warning upload_warning], outcome = Stopped\<rparr>
           else
             (case test_build L (uploaded_files w) (openai_api_key w) of
                Inl e \<Rightarrow> \<lparr>state = s, shown = ev, outcome = Raised e\<rparr>
              | Inr chain \<Rightarrow>
                  test_chat L w
                    (s\<lparr>conversation := Some (Some chain), processComplete := Some True\<rparr>) ev)
         else test_chat L w s ev)"

text \<open>The transcript of a session: the \<open>messages\<close> list, empty while the key is absent.\<close>

definition transcript :: "'c session_state \<Rightarrow> message list" where
  "transcript s = (case messages s of None \<Rightarrow> [] | Some ms \<Rightarrow> ms)"

text \<open>A session before its first run: no key is set.\<close>

definition new_session :: "'c session_state" where
  "new_session =
     \<lparr>conversation = None, chat_history = None, processComplete = None,
      messages = None, chat_messages = None\<rparr>"

section \<open>Sessions over several runs\<close>

text \<open>A session is a sequence of runs, each started from the state the one before left.\<close>

definition refer_session ::
  "('v, 'c) libraries \<Rightarrow> string option widgets list \<Rightarrow> 'c session_state" where
  "refer_session L ws = foldl (\<lambda>s w. state (refer_main L w s)) new_session ws"

definition test_session ::
  "('v, 'c) libraries \<Rightarrow> string widgets list \<Rightarrow> 'c session_state" where
  "test_session L ws = foldl (\<lambda>s w. state (test_main L w s)) new_session ws"

text \<open>Two kinds of run: a click on Process, and a submitted question.\<close>

definition click_process :: "uploaded_file list \<Rightarrow> string \<Rightarrow> 'q \<Rightarrow> 'q widgets" where
  "click_process files key q =
     \<lparr>uploaded_files = files, openai_api_key = key, process = True, query = q\<rparr>"

definition ask :: "'q \<Rightarrow> 'q widgets" where
  "ask q = \<lparr>uploaded_files = [], openai_api_key = [], process = False, query = q\<rparr>"

section \<open>A sample environment\<close>

text \<open>
  Concrete libraries for the worked examples, behaving as the libraries do on what the
  scripts hand them. The three document loaders take a file path; handed a byte buffer
  they raise \<open>TypeError\<close>. The reader takes plain comma-separated text. The tokenizer
  gives one token per byte. The splitter reads the \<open>page_content\<close> of every item, which
  a bare string does not have, then measures every text and keeps a text within the
  window as one chunk (every sample text is within it). The vector store is the list of
  chunks and cannot be built from no chunk. A chain is built for the four chain types
  langchain knows, of which \<open>retrieval\<close> is none; it holds its store and the turns so
  far, answers every question, and cites the first four chunks of its store.
\<close>

fun split_on :: "char \<Rightarrow> string \<Rightarrow> string list" where
  "split_on c [] = [[]]"
| "split_on c (x # xs) =
     (if x = c then [] # split_on c xs
      else (case split_on c xs of [] \<Rightarrow> [[x]] | y # ys \<Rightarrow> (x # y) # ys))"

definition sample_read_csv :: "string \<Rightarrow> pyerror + dataframe" where
  "sample_read_csv buf =
     (case filter (\<lambda>l. l \<noteq> []) (split_on (CHR 0x0A) buf) of
        [] \<Rightarrow> Inl (LibraryError ''EmptyDataError'')
      | header # body \<Rightarrow>
          Inr \<lparr>columns = split_on (CHR '','') header, rows = map (split_on (CHR '','')) body\<rparr>)"

definition no_page_content :: pyerror where
  "no_page_content =
     AttributeError ([CHR 0x27] @ ''str'' @ [CHR 0x27] @ '' object has no attribute '' @
                     [CHR 0x27] @ ''page_content'' @ [CHR 0x27])"

primrec sample_measure :: "document list \<Rightarrow> document list \<Rightarrow> document list splitter_run" where
  "sample_measure [] chunks = Return chunks"
| "sample_measure (d # ds) chunks =
     Measure (page_content d) (\<lambda>n. sample_measure ds (chunks @ [d]))"

definition sample_split :: "nat \<Rightarrow> nat \<Rightarrow> pyobj list \<Rightarrow> document list splitter_run" where
  "sample_split chunk_size chunk_overlap docs =
     (case those (map (\<lambda>x. case x of Document d \<Rightarrow> Some d | Str s \<Rightarrow> None) docs) of
        None \<Rightarrow> Raise no_page_content
      | Some ds \<Rightarrow> sample_measure ds [])"

definition not_a_path :: pyerror where
  "not_a_path = TypeError ''expected str, bytes or os.PathLike object, not BytesIO''"

definition sample_libraries ::
  "(document list, document list \<times> (string \<times> string) list) libraries" where
  "sample_libraries =
     \<lparr>PyPDFLoader = (\<lambda>bytes. Inl not_a_path),
      Docx2txtLoader = (\<lambda>bytes. Inl not_a_path),
      UnstructuredPowerPointLoader = (\<lambda>bytes. Inl not_a_path),
      decode = Inr,
      read_csv = sample_read_csv,
      encode = (\<lambda>encoding text. Inr (map of_char text)),
      split_documents = sample_split,
      from_documents =
        (\<lambda>config docs.
           if docs = [] then Inl (IndexError ''list index out of range'') else Inr docs),
      from_llm =
        (\<lambda>config store.
           if chain_type config \<in> set [''stuff'', ''map_reduce'', ''refine'', ''map_rerank'']
           then Inr (store, [])
           else Inl (ValueError (''Got unsupported chain type: '' @ chain_type config))),
      call_chain =
        (\<lambda>chain question.
           Inr (\<lparr>answer = ''answer to '' @ question, source_documents = take 4 (fst chain),
                 result_chat_history = snd chain\<rparr>,
                (fst chain,
                 snd chain @ [(''human'', question), (''ai'', ''answer to '' @ question)])))\<rparr>"

definition sample_table :: dataframe where
  "sample_table =
     \<lparr>columns = [''name'', ''city''], rows = [[''ann'', ''rome''], [''bob'', ''oslo'']]\<rparr>"

definition sample_csv :: string where
  "sample_csv = ''name,city'' @ [CHR 0x0A] @ ''ann,rome'' @ [CHR 0x0A] @ ''bob,oslo'' @ [CHR 0x0A]"

text \<open>
  Three uploads: a CSV file, the same file as a browser reports it that takes
  \<open>.csv\<close> for a spreadsheet (a MIME type that \<open>get_text\<close> does not know), and a PDF.
\<close>

definition csv_file :: uploaded_file where
  "csv_file = \<lparr>name = ''table.csv'', type = ''text/csv'', getvalue = sample_csv\<rparr>"

definition excel_csv_file :: uploaded_file where
  "excel_csv_file =
     \<lparr>name = ''table.csv'', type = ''application/vnd.ms-excel'', getvalue = sample_csv\<rparr>"

definition pdf_file :: uploaded_file where
  "pdf_file = \<lparr>name = ''report.pdf'', type = ''application/pdf'', getvalue = ''%PDF-1.4''\<rparr>"

text \<open>The document that \<^verbatim>\<open>streamlit_refer.py\<close> makes of the CSV file.\<close>

definition csv_chunk :: document where
  "csv_chunk = \<lparr>page_content = to_string sample_table, metadata = [(''source'', ''table.csv'')]\<rparr>"

section \<open>Name resolution in the two modules\<close>

lemma get_openai_callback_unbound:
  "lookup_global refer_globals ''get_openai_callback'' = Inl (name_error ''get_openai_callback'')"
  by (simp add: lookup_global_def refer_globals_def)

lemma tiktoken_unbound_in_test:
  "lookup_global test_globals ''tiktoken'' = Inl (name_error ''tiktoken'')"
  by (simp add: lookup_global_def test_globals_def)

lemma tiktoken_bound_in_refer:
  "lookup_global refer_globals ''tiktoken'' = Inr ()"
  by (simp add: lookup_global_def refer_globals_def)

section \<open>Facts about the sample environment\<close>

lemma to_string_sample_table:
  "to_string sample_table =
     ''name city'' @ [CHR 0x0A] @ '' ann rome'' @ [CHR 0x0A] @ '' bob oslo''"
  by (simp add: to_string_def sample_table_def join_def column_def rjust_def upt_rec)

lemma astype_str_sum_sample_table:
  "join '' '' (astype_str_sum sample_table) = ''annbob romeoslo''"
  by (simp add: astype_str_sum_def sample_table_def join_def column_def upt_rec)

lemma sample_read_csv_sample:
  "read_csv sample_libraries sample_csv = Inr sample_table"
  by (simp add: sample_libraries_def sample_read_csv_def sample_csv_def sample_table_def)

lemma sample_call_chain:
  "call_chain sample_libraries chain question =
     Inr (\<lparr>answer = ''answer to '' @ question, source_documents = take 4 (fst chain),
           result_chat_history = snd chain\<rparr>,
          (fst chain, snd chain @ [(''human'', question), (''ai'', ''answer to '' @ question)]))"
  by (simp add: sample_libraries_def)

lemma sample_split_documents:
  "split_documents sample_libraries = sample_split"
  by (simp add: sample_libraries_def)

lemma sample_split_csv_chunk:
  "sample_split a b [Document csv_chunk] =
     Measure (page_content csv_chunk) (\<lambda>n. Return [csv_chunk])"
  by (simp add: sample_split_def)

lemma sample_tiktoken_len:
  "refer_tiktoken_len sample_libraries text = Inr (length text)"
  by (simp add: refer_tiktoken_len_def tiktoken_bound_in_refer sample_libraries_def)

lemma refer_get_text_csv_file:
  "refer_get_text sample_libraries [csv_file] = Inr [csv_chunk]"
proof -
  have "decode sample_libraries sample_csv = Inr sample_csv"
    by (simp add: sample_libraries_def)
  moreover have "refer_get_text_from_csv sample_libraries sample_csv = Inr (to_string sample_table)"
    by (simp add: refer_get_text_from_csv_def sample_read_csv_sample)
  ultimately show ?thesis
    by (simp add: refer_get_text_def csv_file_def csv_chunk_def pdf_type_def docx_type_def
          pptx_type_def csv_type_def)
qed

lemma test_get_text_csv_file:
  "test_get_text sample_libraries [csv_file] = Inr [Str ''annbob romeoslo'']"
proof -
  have "test_get_text_from_csv sample_libraries sample_csv = Inr ''annbob romeoslo''"
    by (simp add: test_get_text_from_csv_def sample_read_csv_sample astype_str_sum_sample_table)
  then show ?thesis
    by (simp add: test_get_text_def csv_file_def pdf_type_def docx_type_def
          pptx_type_def csv_type_def)
qed

lemma refer_build_sample:
  "refer_build sample_libraries [csv_file] key = Inr ([csv_chunk], [])"
proof -
  have 1: "refer_get_text_chunks sample_libraries [csv_chunk] = Inr [csv_chunk]"
    by (simp add: refer_get_text_chunks_def sample_split_documents sample_split_csv_chunk
          sample_tiktoken_len)
  have 2: "refer_get_vectorstore sample_libraries [csv_chunk] = Inr [csv_chunk]"
    by (simp add: refer_get_vectorstore_def sample_libraries_def)
  have 3: "refer_get_conversation_chain sample_libraries [csv_chunk] key = Inr ([csv_chunk], [])"
    by (simp add: refer_get_conversation_chain_def sample_libraries_def)
  show ?thesis by (simp add: refer_build_def refer_get_text_csv_file 1 2 3)
qed

section \<open>Unsupported uploads\<close>

lemma refer_loop_skip:
  "type d \<notin> set supported_types \<Longrightarrow>
   refer_get_text_loop L acc (d # ds) = refer_get_text_loop L acc ds"
  by (simp add: supported_types_def)

lemma test_loop_skip:
  "type d \<notin> set supported_types \<Longrightarrow>
   test_get_text_loop L acc (d # ds) = test_get_text_loop L acc ds"
  by (simp add: supported_types_def)

lemma refer_loop_append:
  "refer_get_text_loop L acc (xs @ ys) =
     (case refer_get_text_loop L acc xs of
        Inl e \<Rightarrow> Inl e
      | Inr acc' \<Rightarrow> refer_get_text_loop L acc' ys)"
  by (induction xs arbitrary: acc) (simp_all split: sum.splits)

lemma test_loop_append:
  "test_get_text_loop L acc (xs @ ys) =
     (case test_get_text_loop L acc xs of
        Inl e \<Rightarrow> Inl e
      | Inr acc' \<Rightarrow> test_get_text_loop L acc' ys)"
  by (induction xs arbitrary: acc) (simp_all split: sum.splits)

lemma refer_loop_unsupported:
  "\<forall>f \<in> set docs. type f \<notin> set supported_types \<Longrightarrow> refer_get_text_loop L acc docs = Inr acc"
  by (induction docs) (simp_all add: supported_types_def)

lemma test_loop_unsupported:
  "\<forall>f \<in> set docs. type f \<notin> set supported_types \<Longrightarrow> test_get_text_loop L acc docs = Inr acc"
  by (induction docs) (simp_all add: supported_types_def)

lemma refer_get_text_drop:
  "type d \<notin> set supported_types \<Longrightarrow>
   refer_get_text L (xs @ d # ys) = refer_get_text L (xs @ ys)"
  unfolding refer_get_text_def refer_loop_append
  by (simp add: refer_loop_skip split: sum.splits del: refer_get_text_loop.simps)

lemma test_get_text_drop:
  "type d \<notin> set supported_types \<Longrightarrow>
   test_get_text L (xs @ d # ys) = test_get_text L (xs @ ys)"
  unfolding test_get_text_def test_loop_append
  by (simp add: test_loop_skip split: sum.splits del: test_get_text_loop.simps)

text \<open>
  C6. In both scripts a file whose MIME type is none of PDF, DOCX, PPTX and CSV adds
  nothing to the document list and raises nothing: taking it out of the batch, wherever
  it stands, leaves the result of \<open>get_text\<close> as it is. A batch of such files only
  yields the empty document list.
\<close>

theorem unsupported_upload_is_skipped:
  "(type d \<notin> set supported_types \<longrightarrow>
      refer_get_text L (xs @ d # ys) = refer_get_text L (xs @ ys) \<and>
      test_get_text L (xs @ d # ys) = test_get_text L (xs @ ys)) \<and>
   ((\<forall>f \<in> set docs. type f \<notin> set supported_types) \<longrightarrow>
      refer_get_text L docs = Inr [] \<and> test_get_text L docs = Inr [])"
  using refer_get_text_drop [of d L xs ys] test_get_text_drop [of d L xs ys]
    refer_loop_unsupported [of docs L "[]"] test_loop_unsupported [of docs L "[]"]
  by (simp add: refer_get_text_def test_get_text_def)

text \<open>
  The sample batch: the CSV file under the spreadsheet MIME type after the CSV file
  under \<open>text/csv\<close>. The second alone gives the same documents, and the first alone
  gives none.
\<close>

theorem unsupported_upload_is_skipped_witness:
  "type excel_csv_file \<notin> set supported_types
   \<and> refer_get_text sample_libraries ([csv_file] @ excel_csv_file # []) =
       refer_get_text sample_libraries ([csv_file] @ [])
   \<and> test_get_text sample_libraries ([csv_file] @ excel_csv_file # []) =
       test_get_text sample_libraries ([csv_file] @ [])
   \<and> refer_get_text sample_libraries [excel_csv_file] = Inr []
   \<and> test_get_text sample_libraries [excel_csv_file] = Inr []"
proof -
  have u: "type excel_csv_file \<notin> set supported_types"
    by (simp add: excel_csv_file_def supported_types_def pdf_type_def docx_type_def pptx_type_def
          csv_type_def)
  then have a: "\<forall>f \<in> set [excel_csv_file]. type f \<notin> set supported_types"
    by simp
  show ?thesis
    using u a unsupported_upload_is_skipped [of excel_csv_file sample_libraries "[csv_file]" "[]" "[excel_csv_file]"]
    by blast
qed

section \<open>A click on Process without a key or without uploads\<close>

lemma refer_init_fields:
  "conversation (refer_init s) = (case conversation s of None \<Rightarrow> Some None | Some c \<Rightarrow> Some c)"
  "processComplete (refer_init s) = (case processComplete s of None \<Rightarrow> Some False | Some b \<Rightarrow> Some b)"
  "messages (refer_init s) = messages s"
  "chat_messages (refer_init s) = chat_messages s"
  by (simp_all add: refer_init_def)

lemma test_init_fields:
  "conversation (test_init s) = (case conversation s of None \<Rightarrow> Some None | Some c \<Rightarrow> Some c)"
  "processComplete (test_init s) = (case processComplete s of None \<Rightarrow> Some False | Some b \<Rightarrow> Some b)"
  "messages (test_init s) = (case messages s of None \<Rightarrow> Some [test_greeting] | Some m \<Rightarrow> Some m)"
  "chat_messages (test_init s) = chat_messages s"
  by (simp_all add: test_init_def)

lemma refer_stop:
  "process w \<Longrightarrow> openai_api_key w = [] \<or> uploaded_files w = [] \<Longrightarrow>
   refer_main L w s =
     \<lparr>state = refer_init s,
      shown = [st_set_page_config ''DirChat'' '':books:'', st_title refer_title,
               st_warning (if openai_api_key w = [] then key_warning else upload_warning)],
      outcome = Stopped\<rparr>"
  by (auto simp add: refer_main_def Let_def)

lemma test_stop:
  "process w \<Longrightarrow> openai_api_key w = [] \<or> uploaded_files w = [] \<Longrightarrow>
   test_main L w s =
     \<lparr>state = test_init s,
      shown = [st_set_page_config ''DirChat'' '':books:'', st_title test_title,
               st_warning (if openai_api_key w = [] then key_warning else upload_warning)],
      outcome = Stopped\<rparr>"
  by (auto simp add: test_main_def Let_def)

text \<open>
  C1. In both scripts, a run in which Process is clicked while the key is empty or no
  file is uploaded ends in \<open>st.stop()\<close>: the last thing shown is the warning, the run is
  the same whatever the libraries would have done (none of them is called), and the
  keys \<open>conversation\<close> and \<open>processComplete\<close> keep the values they had (their defaults
  \<open>None\<close> and \<open>False\<close> when the keys were absent).
\<close>

theorem process_blocked_without_key_or_uploads:
  "(process w \<and> (openai_api_key w = [] \<or> uploaded_files w = []) \<longrightarrow>
      outcome (refer_main L w s) = Stopped
    \<and> shown (refer_main L w s) =
        [st_set_page_config ''DirChat'' '':books:'', st_title refer_title,
         st_warning (if openai_api_key w = [] then key_warning else upload_warning)]
    \<and> refer_main L w s = refer_main L' w s
    \<and> conversation (state (refer_main L w s)) =
        (case conversation s of None \<Rightarrow> Some None | Some c \<Rightarrow> Some c)
    \<and> processComplete (state (refer_main L w s)) =
        (case processComplete s of None \<Rightarrow> Some False | Some b \<Rightarrow> Some b))
   \<and> (process v \<and> (openai_api_key v = [] \<or> uploaded_files v = []) \<longrightarrow>
      outcome (test_main L v s) = Stopped
    \<and> shown (test_main L v s) =
        [st_set_page_config ''DirChat'' '':books:'', st_title test_title,
         st_warning (if openai_api_key v = [] then key_warning else upload_warning)]
    \<and> test_main L v s = test_main L' v s
    \<and> conversation (state (test_main L v s)) =
        (case conversation s of None \<Rightarrow> Some None | Some c \<Rightarrow> Some c)
    \<and> processComplete (state (test_main L v s)) =
        (case processComplete s of None \<Rightarrow> Some False | Some b \<Rightarrow> Some b))"
proof (intro conjI impI)
  assume b: "process w \<and> (openai_api_key w = [] \<or> uploaded_files w = [])"
  have r: "refer_main L w s = \<lparr>state = refer_init s,
      shown = [st_set_page_config ''DirChat'' '':books:'', st_title refer_title,
               st_warning (if openai_api_key w = [] then key_warning else upload_warning)],
      outcome = Stopped\<rparr>"
    using b refer_stop [of w L s] by blast
  have r': "refer_main L' w s = \<lparr>state = refer_init s,
      shown = [st_set_page_config ''DirChat'' '':books:'', st_title refer_title,
               st_warning (if openai_api_key w = [] then key_warning else upload_warning)],
      outcome = Stopped\<rparr>"
    using b refer_stop [of w L' s] by blast
  show "outcome (refer_main L w s) = Stopped"
    by (simp add: r)
  show "shown (refer_main L w s) =
        [st_set_page_config ''DirChat'' '':books:'', st_title refer_title,
         st_warning (if openai_api_key w = [] then key_warning else upload_warning)]"
    by (simp add: r)
  show "refer_main L w s = refer_main L' w s"
    by (simp only: r r')
  show "conversation (state (refer_main L w s)) =
        (case conversation s of None \<Rightarrow> Some None | Some c \<Rightarrow> Some c)"
    by (simp add: r refer_init_fields)
  show "processComplete (state (refer_main L w s)) =
        (case processComplete s of None \<Rightarrow> Some False | Some b \<Rightarrow> Some b)"
    by (simp add: r refer_init_fields)
next
  assume b: "process v \<and> (openai_api_key v = [] \<or> uploaded_files v = [])"
  have r: "test_main L v s = \<lparr>state = test_init s,
      shown = [st_set_page_config ''DirChat'' '':books:'', st_title test_title,
               st_warning (if openai_api_key v = [] then key_warning else upload_warning)],
      outcome = Stopped\<rparr>"
    using b test_stop [of v L s] by blast
  have r': "test_main L' v s = \<lparr>state = test_init s,
      shown = [st_set_page_config ''DirChat'' '':books:'', st_title test_title,
               st_warning (if openai_api_key v = [] then key_warning else upload_warning)],
      outcome = Stopped\<rparr>"
    using b test_stop [of v L' s] by blast
  show "outcome (test_main L v s) = Stopped"
    by (simp add: r)
  show "shown (test_main L v s) =
        [st_set_page_config ''DirChat'' '':books:'', st_title test_title,
         st_warning (if openai_api_key v = [] then key_warning else upload_warning)]"
    by (simp add: r)
  show "test_main L v s = test_main L' v s"
    by (simp only: r r')
  show "conversation (state (test_main L v s)) =
        (case conversation s of None \<Rightarrow> Some None | Some c \<Rightarrow> Some c)"
    by (simp add: r test_init_fields)
  show "processComplete (state (test_main L v s)) =
        (case processComplete s of None \<Rightarrow> Some False | Some b \<Rightarrow> Some b)"
    by (simp add: r test_init_fields)
qed

text \<open>
  In a new session: Process with a PDF but no key in \<^verbatim>\<open>streamlit_refer.py\<close>, and Process
  with a key but no file in \<^verbatim>\<open>test.py\<close>.
\<close>

theorem process_blocked_witness:
  "process (click_process [pdf_file] [] (None :: string option))
   \<and> openai_api_key (click_process [pdf_file] [] (None :: string option)) = []
   \<and> outcome (refer_main sample_libraries (click_process [pdf_file] [] None) new_session) = Stopped
   \<and> shown (refer_main sample_libraries (click_process [pdf_file] [] None) new_session) =
       [st_set_page_config ''DirChat'' '':books:'', st_title refer_title, st_warning key_warning]
   \<and> conversation (state (refer_main sample_libraries (click_process [pdf_file] [] None) new_session))
       = Some None
   \<and> processComplete (state (refer_main sample_libraries (click_process [pdf_file] [] None) new_session))
       = Some False
   \<and> process (click_process [] ''sk-test'' ([] :: string))
   \<and> uploaded_files (click_process [] ''sk-test'' ([] :: string)) = []
   \<and> outcome (test_main sample_libraries (click_process [] ''sk-test'' []) new_session) = Stopped
   \<and> shown (test_main sample_libraries (click_process [] ''sk-test'' []) new_session) =
       [st_set_page_config ''DirChat'' '':books:'', st_title test_title, st_warning upload_warning]
   \<and> conversation (state (test_main sample_libraries (click_process [] ''sk-test'' []) new_session))
       = Some None
   \<and> processComplete (state (test_main sample_libraries (click_process [] ''sk-test'' []) new_session))
       = Some False"
  using process_blocked_without_key_or_uploads
    [of "click_process [pdf_file] [] None" sample_libraries new_session sample_libraries
        "click_process [] ''sk-test'' []"]
  by (simp add: click_process_def new_session_def)

section \<open>A chat turn in streamlit\_refer.py\<close>

lemma refer_chat_turn:
  assumes "query w = Some q" and "q \<noteq> []"
  shows "refer_chat L w s ev =
     (let ms = (case messages s of None \<Rightarrow> [refer_greeting] | Some m \<Rightarrow> m);
          s2 = s\<lparr>messages := Some (ms @ [\<lparr>role = ''user'', content = q\<rparr>]),
                 chat_messages := (case chat_messages s of None \<Rightarrow> Some [] | Some h \<Rightarrow> Some h)\<rparr>;
          ev2 = ev @ concat (map (\<lambda>m. [st_chat_message (role m), st_markdown (content m)]) ms) @
                [st_chat_message ''user'', st_markdown q,
                 st_chat_message ''assistant'', st_spinner ''Thinking...'']
      in case conversation s of
           None \<Rightarrow> \<lparr>state = s2, shown = ev2, outcome = Raised (AttributeError ''conversation'')\<rparr>
         | Some None \<Rightarrow>
             \<lparr>state = s2, shown = ev2, outcome = Raised none_not_callable\<rparr>
         | Some (Some chain) \<Rightarrow>
             (case call_chain L chain q of
                Inl e \<Rightarrow> \<lparr>state = s2, shown = ev2, outcome = Raised e\<rparr>
              | Inr (result, chain') \<Rightarrow>
                  \<lparr>state = s2\<lparr>conversation := Some (Some chain')\<rparr>, shown = ev2,
                   outcome = Raised (name_error ''get_openai_callback'')\<rparr>))"
  using assms
  by (simp add: refer_chat_def Let_def get_openai_callback_unbound
        split: option.splits sum.splits prod.splits)

lemma refer_chat_idle:
  assumes "query w = None \<or> query w = Some []"
  shows "refer_chat L w s ev =
     (let ms = (case messages s of None \<Rightarrow> [refer_greeting] | Some m \<Rightarrow> m)
      in \<lparr>state = s\<lparr>messages := Some ms,
                     chat_messages := (case chat_messages s of None \<Rightarrow> Some [] | Some h \<Rightarrow> Some h)\<rparr>,
          shown = ev @ concat (map (\<lambda>m. [st_chat_message (role m), st_markdown (content m)]) ms),
          outcome = Finished\<rparr>)"
  using assms by (auto simp add: refer_chat_def Let_def)

lemma refer_session_sample:
  "refer_session sample_libraries [click_process [csv_file] ''sk-test'' None] =
     \<lparr>conversation = Some (Some ([csv_chunk], [])), chat_history = Some [],
      processComplete = Some True, messages = Some [refer_greeting], chat_messages = Some []\<rparr>"
  by (simp add: refer_session_def refer_main_def click_process_def refer_build_sample
        refer_chat_idle refer_init_def new_session_def Let_def)

text \<open>
  C2, as amended. In \<^verbatim>\<open>streamlit_refer.py\<close> a submitted question is appended to
  \<open>messages\<close> as the user's entry and the run then ends in an error, so that no
  assistant entry follows it: the unbound name \<open>get_openai_callback\<close> when the chain
  call returns, the error of the chain call when it raises, and a \<open>TypeError\<close> when
  \<open>conversation\<close> is still \<open>None\<close> (the call of \<open>None\<close> comes before the name is
  looked up).
\<close>

theorem refer_chat_turn_fails:
  assumes "query w = Some q" and "q \<noteq> []" and "\<not> process w"
  shows "messages (state (refer_main L w s)) =
           Some ((case messages s of None \<Rightarrow> [refer_greeting] | Some m \<Rightarrow> m) @
                 [\<lparr>role = ''user'', content = q\<rparr>])
       \<and> outcome (refer_main L w s) =
           (case conversation s of
              None \<Rightarrow> Raised none_not_callable
            | Some None \<Rightarrow> Raised none_not_callable
            | Some (Some chain) \<Rightarrow>
                (case call_chain L chain q of
                   Inl e \<Rightarrow> Raised e
                 | Inr answered \<Rightarrow> Raised (name_error ''get_openai_callback'')))"
  using assms
  by (simp add: refer_main_def Let_def refer_chat_turn [of w q] refer_init_fields
        split: option.splits sum.splits prod.splits)

text \<open>
  A question asked after a Process over the sample CSV file has built a chain: the
  chain answers, and the run ends in the unbound name with the question as the last
  entry.
\<close>

theorem refer_chat_turn_fails_witness:
  "query (ask (Some ''hi'')) = Some ''hi''
   \<and> ''hi'' \<noteq> []
   \<and> \<not> process (ask (Some ''hi''))
   \<and> conversation (refer_session sample_libraries [click_process [csv_file] ''sk-test'' None])
       = Some (Some ([csv_chunk], []))
   \<and> outcome (refer_main sample_libraries (ask (Some ''hi''))
        (refer_session sample_libraries [click_process [csv_file] ''sk-test'' None])) =
       Raised (name_error ''get_openai_callback'')
   \<and> transcript (state (refer_main sample_libraries (ask (Some ''hi''))
        (refer_session sample_libraries [click_process [csv_file] ''sk-test'' None]))) =
       [refer_greeting, \<lparr>role = ''user'', content = ''hi''\<rparr>]"
  using refer_chat_turn_fails [of "ask (Some ''hi'')" "''hi''" sample_libraries
      "refer_session sample_libraries [click_process [csv_file] ''sk-test'' None]"]
  by (simp add: ask_def refer_session_sample transcript_def sample_call_chain)

text \<open>
  Against C2 as stated: the first question of a new session, before any Process. The
  run does not end in the unbound name; it ends in the \<open>TypeError\<close> of calling \<open>None\<close>.
\<close>

theorem refer_turn_without_chain_counterexample:
  "outcome (refer_main sample_libraries (ask (Some ''hi'')) new_session) \<noteq>
     Raised (name_error ''get_openai_callback'')
   \<and> outcome (refer_main sample_libraries (ask (Some ''hi'')) new_session) =
     Raised none_not_callable"
  by (simp add: refer_main_def ask_def refer_chat_turn [of _ "''hi''"] refer_init_def
        new_session_def Let_def name_error_def none_not_callable_def)

section \<open>A question before any index is built\<close>

lemma test_chat_not_ready:
  "processComplete s = Some False \<Longrightarrow> messages s = Some ms \<Longrightarrow>
   test_chat L w s ev =
     \<lparr>state = s, shown = ev @ map (\<lambda>m. st_write (role m @ '': '' @ content m)) ms,
      outcome = Finished\<rparr>"
  by (simp add: test_chat_def Let_def)

text \<open>
  C7. The first question of a new session, before any Process. \<^verbatim>\<open>streamlit_refer.py\<close>
  appends the question and raises the \<open>TypeError\<close> of calling \<open>None\<close>, whatever the
  libraries are. \<^verbatim>\<open>test.py\<close> guards the question box by \<open>processComplete\<close>: the same
  run finishes without an error and leaves the transcript at its greeting.
\<close>

theorem question_before_process:
  "outcome (refer_main L (ask (Some ''hi'')) new_session) =
     Raised none_not_callable
   \<and> transcript (state (refer_main L (ask (Some ''hi'')) new_session)) =
     [refer_greeting, \<lparr>role = ''user'', content = ''hi''\<rparr>]
   \<and> outcome (test_main L (ask ''hi'') new_session) = Finished
   \<and> transcript (state (test_main L (ask ''hi'') new_session)) = [test_greeting]"
  by (simp add: refer_main_def test_main_def ask_def refer_chat_turn [of _ "''hi''"]
        test_chat_not_ready [of _ "[test_greeting]"]
        refer_init_def test_init_def new_session_def Let_def transcript_def)

section \<open>Chunking in test.py\<close>

lemma refer_tiktoken_len_counts:
  "refer_tiktoken_len L text =
     (case encode L ''cl100k_base'' text of Inl e \<Rightarrow> Inl e | Inr tokens \<Rightarrow> Inr (length tokens))"
  by (simp add: refer_tiktoken_len_def tiktoken_bound_in_refer)

lemma test_tiktoken_len_raises:
  "test_tiktoken_len L text = Inl (name_error ''tiktoken'')"
  by (simp add: test_tiktoken_len_def tiktoken_unbound_in_test)

lemma test_get_text_chunks_cases:
  "test_get_text_chunks L docs =
     (case split_documents L 900 100 docs of
        Return chunks \<Rightarrow> Inr chunks
      | Raise e \<Rightarrow> Inl e
      | Measure text k \<Rightarrow> Inl (name_error ''tiktoken''))"
  by (cases "split_documents L 900 100 docs")
     (simp_all add: test_get_text_chunks_def test_tiktoken_len_raises)

lemma test_main_load_error:
  assumes "process w" and "openai_api_key w \<noteq> []" and "uploaded_files w \<noteq> []"
    and "test_get_text L (uploaded_files w) = Inl e"
  shows "test_main L w s =
     \<lparr>state = test_init s,
      shown = [st_set_page_config ''DirChat'' '':books:'', st_title test_title],
      outcome = Raised e\<rparr>"
  using assms by (simp add: test_main_def test_build_def Let_def)

lemma test_main_chunk_error:
  assumes "process w" and "openai_api_key w \<noteq> []" and "uploaded_files w \<noteq> []"
    and "test_get_text L (uploaded_files w) = Inr docs"
    and "test_get_text_chunks L docs = Inl e"
  shows "test_main L w s =
     \<lparr>state = test_init s,
      shown = [st_set_page_config ''DirChat'' '':books:'', st_title test_title],
      outcome = Raised e\<rparr>"
  using assms by (simp add: test_main_def test_build_def Let_def)

lemma test_get_text_pdf_file:
  "test_get_text sample_libraries [pdf_file] = Inl not_a_path"
  by (simp add: test_get_text_def pdf_file_def pdf_type_def sample_libraries_def)

lemma test_chunks_csv_text:
  "test_get_text_chunks sample_libraries [Str ''annbob romeoslo''] = Inl no_page_content"
  by (simp add: test_get_text_chunks_cases sample_split_documents sample_split_def)

text \<open>
  C3, as amended. In \<^verbatim>\<open>test.py\<close> the name \<open>tiktoken\<close> is unbound, so \<open>tiktoken_len\<close> raises
  \<open>NameError\<close> on every text, and \<open>get_text_chunks\<close> hands it to the splitter as its
  length function: chunking returns what the splitter returns without measuring, raises
  what the splitter raises before it measures, and ends in the \<open>NameError\<close> as soon as
  the splitter measures a text. A Process run over uploads, with a key, ends in the
  error of loading when loading fails, and otherwise in the error of chunking when
  chunking fails, before \<open>conversation\<close> or \<open>processComplete\<close> is assigned; so it ends
  in the \<open>NameError\<close> when the splitter gets to measure, and in another error when
  loading or the splitter raises first.
\<close>

theorem test_chunking_error:
  "test_tiktoken_len L text = Inl (name_error ''tiktoken'')
   \<and> test_get_text_chunks L docs =
       (case split_documents L 900 100 docs of
          Return chunks \<Rightarrow> Inr chunks
        | Raise e \<Rightarrow> Inl e
        | Measure measured k \<Rightarrow> Inl (name_error ''tiktoken''))
   \<and> (process w \<and> openai_api_key w \<noteq> [] \<and> uploaded_files w \<noteq> []
        \<and> test_get_text L (uploaded_files w) = Inl e \<longrightarrow>
        outcome (test_main L w s) = Raised e \<and> state (test_main L w s) = test_init s)
   \<and> (process w \<and> openai_api_key w \<noteq> [] \<and> uploaded_files w \<noteq> []
        \<and> test_get_text L (uploaded_files w) = Inr loaded
        \<and> test_get_text_chunks L loaded = Inl e \<longrightarrow>
        outcome (test_main L w s) = Raised e \<and> state (test_main L w s) = test_init s)"
proof (intro conjI impI)
  show "test_tiktoken_len L text = Inl (name_error ''tiktoken'')"
    by (rule test_tiktoken_len_raises)
next
  show "test_get_text_chunks L docs =
       (case split_documents L 900 100 docs of
          Return chunks \<Rightarrow> Inr chunks
        | Raise e \<Rightarrow> Inl e
        | Measure measured k \<Rightarrow> Inl (name_error ''tiktoken''))"
    by (rule test_get_text_chunks_cases)
next
  assume a: "process w \<and> openai_api_key w \<noteq> [] \<and> uploaded_files w \<noteq> []
        \<and> test_get_text L (uploaded_files w) = Inl e"
  have r: "test_main L w s =
     \<lparr>state = test_init s,
      shown = [st_set_page_config ''DirChat'' '':books:'', st_title test_title],
      outcome = Raised e\<rparr>"
    using a by (intro test_main_load_error) blast+
  show "outcome (test_main L w s) = Raised e"
    by (simp add: r)
  show "state (test_main L w s) = test_init s"
    by (simp add: r)
next
  assume a: "process w \<and> openai_api_key w \<noteq> [] \<and> uploaded_files w \<noteq> []
        \<and> test_get_text L (uploaded_files w) = Inr loaded
        \<and> test_get_text_chunks L loaded = Inl e"
  have a1: "process w" using a by blast
  have a2: "openai_api_key w \<noteq> []" using a by blast
  have a3: "uploaded_files w \<noteq> []" using a by blast
  have a4: "test_get_text L (uploaded_files w) = Inr loaded" using a by blast
  have a5: "test_get_text_chunks L loaded = Inl e" using a by blast
  note r = test_main_chunk_error [OF a1 a2 a3 a4 a5]
  show "outcome (test_main L w s) = Raised e"
    by (simp add: r)
  show "state (test_main L w s) = test_init s"
    by (simp add: r)
qed

text \<open>
  Two Process runs of a new session: over the PDF, where the loader raises, and over
  the CSV file, where the splitter raises on the bare string.
\<close>

theorem test_chunking_error_witness:
  "process (click_process [pdf_file] ''sk-test'' ([] :: string))
   \<and> openai_api_key (click_process [pdf_file] ''sk-test'' ([] :: string)) \<noteq> []
   \<and> uploaded_files (click_process [pdf_file] ''sk-test'' ([] :: string)) \<noteq> []
   \<and> test_get_text sample_libraries [pdf_file] = Inl not_a_path
   \<and> outcome (test_main sample_libraries (click_process [pdf_file] ''sk-test'' []) new_session) =
       Raised not_a_path
   \<and> test_get_text sample_libraries [csv_file] = Inr [Str ''annbob romeoslo'']
   \<and> test_get_text_chunks sample_libraries [Str ''annbob romeoslo''] = Inl no_page_content
   \<and> outcome (test_main sample_libraries (click_process [csv_file] ''sk-test'' []) new_session) =
       Raised no_page_content
   \<and> conversation (state (test_main sample_libraries (click_process [csv_file] ''sk-test'' []) new_session))
       = Some None
   \<and> processComplete (state (test_main sample_libraries (click_process [csv_file] ''sk-test'' []) new_session))
       = Some False"
  using
    test_chunking_error [where L = sample_libraries and w = "click_process [pdf_file] ''sk-test'' []"
      and s = new_session and e = not_a_path]
    test_chunking_error [where L = sample_libraries and w = "click_process [csv_file] ''sk-test'' []"
      and s = new_session and e = no_page_content and loaded = "[Str ''annbob romeoslo'']"]
    test_get_text_pdf_file test_get_text_csv_file test_chunks_csv_text
  by (simp add: click_process_def test_init_fields new_session_def)

text \<open>
  Against C3 as stated: Process over the CSV file in a new session of \<^verbatim>\<open>test.py\<close>. The
  batch is not empty, and the run does not end in the unbound name: the splitter raises
  \<open>AttributeError\<close> before it measures anything.
\<close>

theorem csv_process_counterexample:
  "uploaded_files (click_process [csv_file] ''sk-test'' ([] :: string)) \<noteq> []
   \<and> outcome (test_main sample_libraries (click_process [csv_file] ''sk-test'' []) new_session) =
       Raised no_page_content
   \<and> outcome (test_main sample_libraries (click_process [csv_file] ''sk-test'' []) new_session) \<noteq>
       Raised (name_error ''tiktoken'')"
proof -
  have "test_main sample_libraries (click_process [csv_file] ''sk-test'' []) new_session =
     \<lparr>state = test_init new_session,
      shown = [st_set_page_config ''DirChat'' '':books:'', st_title test_title],
      outcome = Raised no_page_content\<rparr>"
    by (rule test_main_chunk_error [where docs = "[Str ''annbob romeoslo'']"])
       (simp_all add: click_process_def test_get_text_csv_file test_chunks_csv_text)
  then show ?thesis
    by (simp add: click_process_def no_page_content_def name_error_def)
qed

section \<open>The transcript\<close>

lemma transcript_cong:
  "messages s' = messages s \<Longrightarrow> transcript s' = transcript s"
  by (simp add: transcript_def)

lemma test_chat_tail:
  assumes "messages s = Some ms"
  shows "\<exists>tail. messages (state (test_chat L w s ev)) = Some (ms @ tail)
       \<and> (tail = [] \<or> tail = [\<lparr>role = ''user'', content = query w\<rparr>]
          \<or> (\<exists>a. tail = [\<lparr>role = ''user'', content = query w\<rparr>,
                           \<lparr>role = ''assistant'', content = a\<rparr>]))"
proof (cases "processComplete s = Some True \<and> query w \<noteq> []")
  case False
  then have "messages (state (test_chat L w s ev)) = Some (ms @ [])"
    using assms by (simp add: test_chat_def Let_def split: option.splits bool.splits)
  then show ?thesis by blast
next
  case True
  show ?thesis
  proof (cases "conversation s")
    case None
    then have "messages (state (test_chat L w s ev)) =
        Some (ms @ [\<lparr>role = ''user'', content = query w\<rparr>])"
      using assms True by (simp add: test_chat_def Let_def)
    then show ?thesis by blast
  next
    case (Some c)
    show ?thesis
    proof (cases c)
      case None
      then have "messages (state (test_chat L w s ev)) =
          Some (ms @ [\<lparr>role = ''user'', content = query w\<rparr>])"
        using assms True Some by (simp add: test_chat_def Let_def)
      then show ?thesis by blast
    next
      case (Some chain)
      show ?thesis
      proof (cases "call_chain L chain (query w)")
        case (Inl e)
        then have "messages (state (test_chat L w s ev)) =
            Some (ms @ [\<lparr>role = ''user'', content = query w\<rparr>])"
          using assms True \<open>conversation s = Some c\<close> Some by (simp add: test_chat_def Let_def)
        then show ?thesis by blast
      next
        case (Inr answered)
        then have "messages (state (test_chat L w s ev)) =
            Some (ms @ [\<lparr>role = ''user'', content = query w\<rparr>,
                        \<lparr>role = ''assistant'', content = answer (fst answered)\<rparr>])"
          using assms True \<open>conversation s = Some c\<close> Some
          by (simp add: test_chat_def Let_def split: prod.splits)
        then show ?thesis by blast
      qed
    qed
  qed
qed

lemma test_main_state:
  "state (test_main L w s) = test_init s \<or>
   (\<exists>s' ev. messages s' = messages (test_init s) \<and>
      state (test_main L w s) = state (test_chat L w s' ev))"
proof (cases "process w")
  case False
  then have "state (test_main L w s) =
      state (test_chat L w (test_init s)
        [st_set_page_config ''DirChat'' '':books:'', st_title test_title])"
    by (simp add: test_main_def Let_def)
  then show ?thesis by blast
next
  case True
  show ?thesis
  proof (cases "openai_api_key w = [] \<or> uploaded_files w = []")
    case True
    with \<open>process w\<close> show ?thesis by (simp add: test_stop)
  next
    case False
    show ?thesis
    proof (cases "test_build L (uploaded_files w) (openai_api_key w)")
      case (Inl e)
      with False \<open>process w\<close> show ?thesis by (simp add: test_main_def Let_def)
    next
      case (Inr chain)
      with False \<open>process w\<close> have "state (test_main L w s) =
        state (test_chat L w
          ((test_init s)\<lparr>conversation := Some (Some chain), processComplete := Some True\<rparr>)
          [st_set_page_config ''DirChat'' '':books:'', st_title test_title])"
        by (simp add: test_main_def Let_def)
      moreover have "messages ((test_init s)\<lparr>conversation := Some (Some chain),
          processComplete := Some True\<rparr>) = messages (test_init s)"
        by simp
      ultimately show ?thesis by blast
    qed
  qed
qed

lemma test_main_tail:
  "\<exists>tail. messages (state (test_main L w s)) =
      Some ((case messages s of None \<Rightarrow> [test_greeting] | Some m \<Rightarrow> m) @ tail)
     \<and> (tail = [] \<or> tail = [\<lparr>role = ''user'', content = query w\<rparr>]
        \<or> (\<exists>a. tail = [\<lparr>role = ''user'', content = query w\<rparr>,
                         \<lparr>role = ''assistant'', content = a\<rparr>]))"
proof -
  have i: "messages (test_init s) =
      Some (case messages s of None \<Rightarrow> [test_greeting] | Some m \<Rightarrow> m)"
    by (simp add: test_init_fields split: option.splits)
  from test_main_state [of L w s] show ?thesis
  proof (elim disjE exE conjE)
    assume "state (test_main L w s) = test_init s"
    then have "messages (state (test_main L w s)) =
        Some ((case messages s of None \<Rightarrow> [test_greeting] | Some m \<Rightarrow> m) @ [])"
      by (simp add: i)
    then show ?thesis by blast
  next
    fix s' ev
    assume m: "messages s' = messages (test_init s)"
      and c: "state (test_main L w s) = state (test_chat L w s' ev)"
    have "messages s' = Some (case messages s of None \<Rightarrow> [test_greeting] | Some m \<Rightarrow> m)"
      using m i by simp
    then show ?thesis
      unfolding c by (rule test_chat_tail)
  qed
qed

lemma refer_chat_tail:
  "\<exists>tail. messages (state (refer_chat L w s ev)) =
      Some ((case messages s of None \<Rightarrow> [refer_greeting] | Some m \<Rightarrow> m) @ tail)
     \<and> (tail = [] \<or> (\<exists>q. query w = Some q \<and> tail = [\<lparr>role = ''user'', content = q\<rparr>]))"
proof (cases "query w = None \<or> query w = Some []")
  case True
  then have "messages (state (refer_chat L w s ev)) =
      Some ((case messages s of None \<Rightarrow> [refer_greeting] | Some m \<Rightarrow> m) @ [])"
    by (simp add: refer_chat_idle Let_def)
  then show ?thesis by blast
next
  case False
  then obtain q where q: "query w = Some q" "q \<noteq> []"
    by (cases "query w") auto
  have "messages (state (refer_chat L w s ev)) =
      Some ((case messages s of None \<Rightarrow> [refer_greeting] | Some m \<Rightarrow> m) @
            [\<lparr>role = ''user'', content = q\<rparr>])"
    by (simp add: refer_chat_turn [OF q] Let_def split: option.splits sum.splits prod.splits)
  with q(1) show ?thesis by blast
qed

lemma refer_main_state:
  "state (refer_main L w s) = refer_init s \<or>
   (\<exists>s' ev. messages s' = messages s \<and>
      state (refer_main L w s) = state (refer_chat L w s' ev))"
proof (cases "process w")
  case False
  then have "state (refer_main L w s) =
      state (refer_chat L w (refer_init s)
        [st_set_page_config ''DirChat'' '':books:'', st_title refer_title])"
    by (simp add: refer_main_def Let_def)
  moreover have "messages (refer_init s) = messages s"
    by (simp add: refer_init_fields)
  ultimately show ?thesis by (intro disjI2 exI conjI)
next
  case True
  show ?thesis
  proof (cases "openai_api_key w = [] \<or> uploaded_files w = []")
    case True
    with \<open>process w\<close> show ?thesis by (simp add: refer_stop)
  next
    case False
    show ?thesis
    proof (cases "refer_build L (uploaded_files w) (openai_api_key w)")
      case (Inl e)
      with False \<open>process w\<close> show ?thesis by (simp add: refer_main_def Let_def)
    next
      case (Inr chain)
      with False \<open>process w\<close> have "state (refer_main L w s) =
        state (refer_chat L w
          ((refer_init s)\<lparr>conversation := Some (Some chain), processComplete := Some True\<rparr>)
          [st_set_page_config ''DirChat'' '':books:'', st_title refer_title])"
        by (simp add: refer_main_def Let_def)
      moreover have "messages ((refer_init s)\<lparr>conversation := Some (Some chain),
          processComplete := Some True\<rparr>) = messages s"
        by (simp add: refer_init_fields)
      ultimately show ?thesis by (intro disjI2 exI conjI)
    qed
  qed
qed

lemma refer_main_tail:
  "messages (state (refer_main L w s)) = messages s \<or>
   (\<exists>tail. messages (state (refer_main L w s)) =
       Some ((case messages s of None \<Rightarrow> [refer_greeting] | Some m \<Rightarrow> m) @ tail)
      \<and> (tail = [] \<or> (\<exists>q. query w = Some q \<and> tail = [\<lparr>role = ''user'', content = q\<rparr>])))"
  using refer_main_state [of L w s]
proof (elim disjE exE conjE)
  assume "state (refer_main L w s) = refer_init s"
  then show ?thesis by (simp add: refer_init_fields)
next
  fix s' ev
  assume m: "messages s' = messages s"
    and c: "state (refer_main L w s) = state (refer_chat L w s' ev)"
  show ?thesis
    unfolding c using refer_chat_tail [of L w s' ev] by (simp add: m)
qed

lemma test_append_only:
  "prefix (transcript s) (transcript (state (test_main L w s)))"
proof -
  obtain tail where "messages (state (test_main L w s)) =
      Some ((case messages s of None \<Rightarrow> [test_greeting] | Some m \<Rightarrow> m) @ tail)"
    using test_main_tail [of L w s] by (elim exE conjE)
  then show ?thesis
    by (cases "messages s") (simp_all add: transcript_def)
qed

lemma refer_main_messages:
  "messages (state (refer_main L w s)) = messages s \<or>
   (\<exists>tail. messages (state (refer_main L w s)) =
       Some ((case messages s of None \<Rightarrow> [refer_greeting] | Some m \<Rightarrow> m) @ tail))"
  using refer_main_tail [of L w s] by auto

lemma refer_append_only:
  "prefix (transcript s) (transcript (state (refer_main L w s)))"
  using refer_main_messages [of L w s]
proof (elim disjE exE)
  assume "messages (state (refer_main L w s)) = messages s"
  then show ?thesis by (simp add: transcript_def)
next
  fix tail
  assume "messages (state (refer_main L w s)) =
      Some ((case messages s of None \<Rightarrow> [refer_greeting] | Some m \<Rightarrow> m) @ tail)"
  then show ?thesis
    by (cases "messages s") (simp_all add: transcript_def)
qed

text \<open>In a session, \<open>messages\<close> is absent or begins with the greeting.\<close>

lemma test_greeted:
  assumes "messages s = None"
  shows "prefix [test_greeting] (transcript (state (test_main L w s)))"
proof -
  obtain tail where "messages (state (test_main L w s)) =
      Some ((case messages s of None \<Rightarrow> [test_greeting] | Some m \<Rightarrow> m) @ tail)"
    using test_main_tail [of L w s] by (elim exE conjE)
  with assms show ?thesis by (simp add: transcript_def)
qed

lemma test_session_snoc:
  "test_session L (ws @ [w]) = state (test_main L w (test_session L ws))"
  by (simp add: test_session_def)

lemma refer_session_snoc:
  "refer_session L (ws @ [w]) = state (refer_main L w (refer_session L ws))"
  by (simp add: refer_session_def)

lemma test_session_greeting:
  "ws \<noteq> [] \<Longrightarrow> prefix [test_greeting] (transcript (test_session L ws))"
proof (induction ws rule: rev_induct)
  case Nil
  then show ?case by simp
next
  case (snoc w ws)
  show ?case
  proof (cases "ws = []")
    case True
    have "prefix [test_greeting] (transcript (state (test_main L w new_session)))"
      by (rule test_greeted) (simp add: new_session_def)
    with True show ?thesis
      by (simp add: test_session_def)
  next
    case False
    then have "prefix [test_greeting] (transcript (test_session L ws))"
      by (rule snoc.IH)
    moreover have "prefix (transcript (test_session L ws))
        (transcript (state (test_main L w (test_session L ws))))"
      by (rule test_append_only)
    ultimately show ?thesis
      unfolding test_session_snoc by (rule prefix_order.trans)
  qed
qed

lemma refer_session_greeting:
  "messages (refer_session L ws) = None \<or>
   (\<exists>rest. messages (refer_session L ws) = Some (refer_greeting # rest))"
proof (induction ws rule: rev_induct)
  case Nil
  show ?case by (simp add: refer_session_def new_session_def)
next
  case (snoc w ws)
  have "messages (state (refer_main L w (refer_session L ws))) = None \<or>
   (\<exists>rest. messages (state (refer_main L w (refer_session L ws))) = Some (refer_greeting # rest))"
    using refer_main_messages [of L w "refer_session L ws"]
  proof (elim disjE exE)
    assume "messages (state (refer_main L w (refer_session L ws))) =
        messages (refer_session L ws)"
    with snoc.IH show ?thesis by simp
  next
    fix tail
    assume t: "messages (state (refer_main L w (refer_session L ws))) =
        Some ((case messages (refer_session L ws) of None \<Rightarrow> [refer_greeting] | Some m \<Rightarrow> m) @ tail)"
    from snoc.IH show ?thesis
    proof (elim disjE exE)
      assume "messages (refer_session L ws) = None"
      with t show ?thesis by simp
    next
      fix rest
      assume "messages (refer_session L ws) = Some (refer_greeting # rest)"
      with t show ?thesis by simp
    qed
  qed
  then show ?case
    by (simp only: refer_session_snoc)
qed

text \<open>
  \<^verbatim>\<open>test.py\<close> asks for the chain type \<open>retrieval\<close>. With libraries that build no chain
  of that type, no Process run of \<^verbatim>\<open>test.py\<close> completes: \<open>processComplete\<close> never
  becomes true, the question box is never shown, and the transcript stays at the
  greeting.
\<close>

lemma test_build_fails:
  assumes "\<And>config store. chain_type config = ''retrieval'' \<Longrightarrow> \<exists>e. from_llm L config store = Inl e"
  shows "\<exists>e. test_build L files key = Inl e"
proof (cases "test_get_text L files")
  case (Inl e)
  then show ?thesis by (simp add: test_build_def)
next
  case loaded: (Inr docs)
  show ?thesis
  proof (cases "test_get_text_chunks L docs")
    case (Inl e)
    with loaded show ?thesis by (simp add: test_build_def)
  next
    case chunked: (Inr chunks)
    show ?thesis
    proof (cases "test_get_vectorstore L chunks")
      case (Inl e)
      with loaded chunked show ?thesis by (simp add: test_build_def)
    next
      case (Inr store)
      obtain e where "test_get_conversation_chain L store key = Inl e"
        unfolding test_get_conversation_chain_def
        using assms [of "\<lparr>api_key = key, model_name = ''gpt-3.5-turbo'', temperature = 0,
          chain_type = ''retrieval'', search_type = ''mmr'', memory_key = ''chat_history'',
          output_key = ''answer'', return_source_documents = True\<rparr>" store]
        by auto
      with loaded chunked Inr show ?thesis by (simp add: test_build_def)
    qed
  qed
qed

lemma test_main_not_ready:
  assumes "\<And>config store. chain_type config = ''retrieval'' \<Longrightarrow> \<exists>e. from_llm L config store = Inl e"
    and "processComplete s = None \<or> processComplete s = Some False"
    and "messages s = None \<or> messages s = Some [test_greeting]"
  shows "processComplete (state (test_main L w s)) = Some False
       \<and> messages (state (test_main L w s)) = Some [test_greeting]"
proof -
  have p: "processComplete (test_init s) = Some False"
    using assms(2) by (auto simp add: test_init_fields)
  have m: "messages (test_init s) = Some [test_greeting]"
    using assms(3) by (auto simp add: test_init_fields)
  have c: "state (test_chat L w (test_init s)
      [st_set_page_config ''DirChat'' '':books:'', st_title test_title]) = test_init s"
    by (simp add: test_chat_not_ready [OF p m])
  show ?thesis
  proof (cases "process w")
    case False
    then have "state (test_main L w s) = test_init s"
      using c by (simp add: test_main_def Let_def)
    then show ?thesis by (simp add: p m)
  next
    case True
    show ?thesis
    proof (cases "openai_api_key w = [] \<or> uploaded_files w = []")
      case True
      with \<open>process w\<close> show ?thesis by (simp add: test_stop p m)
    next
      case False
      obtain e where "test_build L (uploaded_files w) (openai_api_key w) = Inl e"
        using test_build_fails [OF assms(1)] by blast
      with False \<open>process w\<close> have "state (test_main L w s) = test_init s"
        by (simp add: test_main_def Let_def)
      then show ?thesis by (simp add: p m)
    qed
  qed
qed

lemma test_session_never_ready:
  assumes "\<And>config store. chain_type config = ''retrieval'' \<Longrightarrow> \<exists>e. from_llm L config store = Inl e"
  shows "processComplete (test_session L ws) \<noteq> Some True
       \<and> (transcript (test_session L ws) = [] \<or> transcript (test_session L ws) = [test_greeting])"
proof -
  have "(processComplete (test_session L ws) = None \<or> processComplete (test_session L ws) = Some False)
      \<and> (messages (test_session L ws) = None \<or> messages (test_session L ws) = Some [test_greeting])"
  proof (induction ws rule: rev_induct)
    case Nil
    show ?case by (simp add: test_session_def new_session_def)
  next
    case (snoc w ws)
    have "processComplete (state (test_main L w (test_session L ws))) = Some False
       \<and> messages (state (test_main L w (test_session L ws))) = Some [test_greeting]"
      using assms snoc.IH by (intro test_main_not_ready) blast+
    then show ?case by (simp add: test_session_snoc)
  qed
  then show ?thesis by (auto simp add: transcript_def)
qed

lemma sample_builds_no_retrieval_chain:
  "chain_type config = ''retrieval'' \<Longrightarrow> \<exists>e. from_llm sample_libraries config store = Inl e"
  by (simp add: sample_libraries_def)

text \<open>
  Line 68 of \<^verbatim>\<open>test.py\<close> appends the answer right after the chain call: wherever the
  chain answers, the user's entry and the assistant's entry follow the old transcript.
\<close>

lemma test_chat_answered:
  assumes "processComplete s = Some True" and "conversation s = Some (Some c)"
    and "messages s = Some ms" and "query w \<noteq> []"
    and "call_chain L c (query w) = Inr (r, c')"
  shows "messages (state (test_chat L w s ev)) =
     Some (ms @ [\<lparr>role = ''user'', content = query w\<rparr>,
                 \<lparr>role = ''assistant'', content = answer r\<rparr>])"
  using assms by (simp add: test_chat_def Let_def split: prod.splits)




section \<open>The sources shown with an answer\<close>




section \<open>The two CSV-to-text functions\<close>

text \<open>
  C9. The two functions differ on a well-formed CSV file: on every input that the
  reader parses to the table with the columns \<open>name\<close> and \<open>city\<close> and the rows
  \<open>ann, rome\<close> and \<open>bob, oslo\<close>, both return a text, \<^verbatim>\<open>test.py\<close> returns the column sums
  \<open>annbob romeoslo\<close>, and \<^verbatim>\<open>streamlit_refer.py\<close> returns another text, the table with
  its header.
\<close>

theorem csv_text_variants_differ:
  "read_csv L buf = Inr sample_table \<longrightarrow>
     refer_get_text_from_csv L buf = Inr (to_string sample_table)
   \<and> test_get_text_from_csv L buf = Inr ''annbob romeoslo''
   \<and> refer_get_text_from_csv L buf \<noteq> test_get_text_from_csv L buf"
  by (simp add: refer_get_text_from_csv_def test_get_text_from_csv_def
        to_string_sample_table astype_str_sum_sample_table)

text \<open>The file \<open>name,city / ann,rome / bob,oslo\<close> under the sample reader.\<close>

theorem csv_text_variants_differ_witness:
  "read_csv sample_libraries sample_csv = Inr sample_table
   \<and> refer_get_text_from_csv sample_libraries sample_csv =
       Inr (''name city'' @ [CHR 0x0A] @ '' ann rome'' @ [CHR 0x0A] @ '' bob oslo'')
   \<and> test_get_text_from_csv sample_libraries sample_csv = Inr ''annbob romeoslo''
   \<and> refer_get_text_from_csv sample_libraries sample_csv \<noteq>
       test_get_text_from_csv sample_libraries sample_csv"
  using csv_text_variants_differ [of sample_libraries sample_csv] sample_read_csv_sample
  by (simp add: to_string_sample_table)

end
